theory Spec2Isabelle
  imports Complex_Main
begin

section \<open>Strings\<close>

text \<open>
  Source strings are modelled as \<^typ>\<open>string\<close>. Case conversion, trimming and the
  regular-expression character classes are those of the ASCII range; text of the source
  outside ASCII (the two symbols that open the fixed comments) is carried as its UTF-8
  bytes. The integer profile columns (age, blood pressure) are modelled as integers.
\<close>

definition toLowerCase_char :: "char \<Rightarrow> char" where
  "toLowerCase_char c =
     (case map_of (zip ''ABCDEFGHIJKLMNOPQRSTUVWXYZ'' ''abcdefghijklmnopqrstuvwxyz'') c of
        Some l \<Rightarrow> l
      | None \<Rightarrow> c)"

definition toLowerCase :: "string \<Rightarrow> string" where
  "toLowerCase s = map toLowerCase_char s"

text \<open>The class \<open>\s\<close>: tab, line feed, vertical tab, form feed, carriage return, space.\<close>

definition is_space :: "char \<Rightarrow> bool" where
  "is_space c = (c \<in> set [CHR 0x09, CHR 0x0A, CHR 0x0B, CHR 0x0C, CHR 0x0D, CHR '' ''])"

text \<open>\<open>String.prototype.trim\<close>: white space removed at both ends.\<close>

definition trim :: "string \<Rightarrow> string" where
  "trim s = rev (dropWhile is_space (rev (dropWhile is_space s)))"

text \<open>\<open>s.startsWith(t)\<close> and \<open>s.includes(t)\<close> (named \<open>str_includes\<close> here).\<close>

fun startsWith :: "string \<Rightarrow> string \<Rightarrow> bool" where
  "startsWith s [] = True"
| "startsWith [] (d # ds) = False"
| "startsWith (c # cs) (d # ds) = (c = d \<and> startsWith cs ds)"

fun str_includes :: "string \<Rightarrow> string \<Rightarrow> bool" where
  "str_includes [] t = (t = [])"
| "str_includes (c # cs) t = (startsWith (c # cs) t \<or> str_includes cs t)"

text \<open>
  \<open>s.replace(/P+/g, r)\<close> for a one-character class \<open>P\<close>: every maximal run of
  \<open>P\<close>-characters is replaced by \<open>r\<close>.
\<close>

function replace_runs :: "(char \<Rightarrow> bool) \<Rightarrow> string \<Rightarrow> string \<Rightarrow> string" where
  "replace_runs P r [] = []"
| "replace_runs P r (c # cs) =
     (if P c then r @ replace_runs P r (dropWhile P cs) else c # replace_runs P r cs)"
  by pat_completeness auto
termination
  by (relation "measure (\<lambda>(P, r, s). length s)")
     (auto simp: length_dropWhile_le less_Suc_eq_le)

text \<open>\<open>xs.join(sep)\<close>.\<close>

fun join :: "string \<Rightarrow> string list \<Rightarrow> string" where
  "join sep [] = []"
| "join sep [x] = x"
| "join sep (x # y # ys) = x @ sep @ join sep (y # ys)"

section \<open>Numbers\<close>

text \<open>
  A \<open>number\<close> of the source is an IEEE 754 double. The model carries a finite double as
  the rational it denotes; infinities and NaN are outside the model. \<open>fl64\<close> is the
  rounding of a rational to the nearest double, ties to the even significand: with
  \<open>e\<close> the binary exponent of \<open>x\<close>, the doubles around \<open>x\<close> are the multiples of
  \<open>2 ^ q\<close> for \<open>q = e - 52\<close>, and of \<open>2 ^ -1074\<close> in the subnormal range. A double operation
  is the exact operation followed by \<open>fl64\<close>.
\<close>

definition round_half_even :: "rat \<Rightarrow> int" where
  "round_half_even y =
     (let f = \<lfloor>y\<rfloor>; r = y - of_int f
      in if r < 1 / 2 then f
         else if 1 / 2 < r then f + 1
         else if even f then f else f + 1)"

text \<open>The number of binary digits of a positive integer.\<close>

function bit_length :: "int \<Rightarrow> int" where
  "bit_length a = (if 0 < a then bit_length (a div 2) + 1 else 0)"
  by pat_completeness auto
termination
  by (relation "measure nat") auto

definition pow2 :: "int \<Rightarrow> rat" where
  "pow2 q = (if 0 \<le> q then 2 ^ nat q else 1 / 2 ^ nat (- q))"

text \<open>
  The binary exponent of a positive rational \<open>a / b\<close>, the \<open>e\<close> with
  \<open>2 ^ e \<le> a / b < 2 ^ (e + 1)\<close>: the difference \<open>d\<close> of the bit lengths, or \<open>d - 1\<close>.
\<close>

definition ilog2 :: "rat \<Rightarrow> int" where
  "ilog2 x =
     (let (a, b) = quotient_of x;
          d = bit_length a - bit_length b
      in if pow2 d \<le> x then d else d - 1)"

definition fl64_pos :: "rat \<Rightarrow> rat" where
  "fl64_pos x =
     (let q = max (ilog2 x - 52) (- 1074)
      in of_int (round_half_even (x / pow2 q)) * pow2 q)"

definition fl64 :: "rat \<Rightarrow> rat" where
  "fl64 x = (if x = 0 then 0 else if 0 < x then fl64_pos x else - fl64_pos (- x))"

section \<open>The ingredient database (ingredientDatabase.ts)\<close>

datatype RiskLevel = LOW | MODERATE | HIGH

record AffectedBy =
  ab_allergies :: "bool option"
  ab_diabetes :: "bool option"
  ab_bloodPressure :: "bool option"
  ab_age :: "bool option"

record IngredientInfo =
  info_name :: string
  info_canonicalForm :: string
  info_category :: string
  info_baselineRisk :: RiskLevel
  info_baseScore :: rat
  info_concerns :: "string list"
  affectedBy :: "AffectedBy option"

text \<open>The object literal \<open>{}\<close> for \<open>affectedBy\<close>: every flag undefined.\<close>

definition no_flags :: AffectedBy where
  "no_flags = \<lparr>ab_allergies = None, ab_diabetes = None, ab_bloodPressure = None, ab_age = None\<rparr>"

definition mk :: "string \<Rightarrow> string \<Rightarrow> string \<Rightarrow> RiskLevel \<Rightarrow> rat \<Rightarrow> string list \<Rightarrow> AffectedBy
    \<Rightarrow> IngredientInfo" where
  "mk n cf cat r b cs ab =
     \<lparr>info_name = n, info_canonicalForm = cf, info_category = cat, info_baselineRisk = r,
      info_baseScore = b, info_concerns = cs, affectedBy = Some ab\<rparr>"

text \<open>
  \<open>INGREDIENT_DATABASE\<close>, as the list of its entries in insertion order (the order of
  \<open>Object.entries\<close>).
\<close>

definition INGREDIENT_DATABASE :: "(string \<times> IngredientInfo) list" where
  "INGREDIENT_DATABASE =
   [(''sugar'',
       mk ''Sugar'' ''sugar'' ''sweetener'' MODERATE 5
          [''High glycemic index'', ''Blood sugar spikes'']
          (no_flags\<lparr>ab_diabetes := Some True\<rparr>)),
    (''high fructose corn syrup'',
       mk ''High Fructose Corn Syrup'' ''high_fructose_corn_syrup'' ''sweetener'' HIGH 10
          [''Metabolic issues'', ''High glycemic'']
          (no_flags\<lparr>ab_diabetes := Some True\<rparr>)),
    (''corn syrup'',
       mk ''Corn Syrup'' ''corn_syrup'' ''sweetener'' HIGH 10
          [''High glycemic index'']
          (no_flags\<lparr>ab_diabetes := Some True\<rparr>)),
    (''sodium'',
       mk ''Sodium'' ''sodium'' ''mineral'' MODERATE 5
          [''Blood pressure elevation'']
          (no_flags\<lparr>ab_bloodPressure := Some True\<rparr>)),
    (''salt'',
       mk ''Salt'' ''salt'' ''mineral'' MODERATE 5
          [''Blood pressure elevation'', ''Fluid retention'']
          (no_flags\<lparr>ab_bloodPressure := Some True\<rparr>)),
    (''monosodium glutamate'',
       mk ''Monosodium Glutamate (MSG)'' ''msg'' ''flavor_enhancer'' MODERATE 5
          [''Sodium content'', ''Headaches in sensitive individuals'']
          (no_flags\<lparr>ab_bloodPressure := Some True\<rparr>)),
    (''sodium benzoate'',
       mk ''Sodium Benzoate'' ''sodium_benzoate'' ''preservative'' MODERATE 5
          [''Preservative'', ''Sodium content'']
          (no_flags\<lparr>ab_bloodPressure := Some True, ab_age := Some True\<rparr>)),
    (''saturated fat'',
       mk ''Saturated Fat'' ''saturated_fat'' ''fat'' MODERATE 5
          [''Cardiovascular health'']
          (no_flags\<lparr>ab_age := Some True\<rparr>)),
    (''trans fat'',
       mk ''Trans Fat'' ''trans_fat'' ''fat'' HIGH 10
          [''Cardiovascular disease'', ''Banned in many countries'']
          (no_flags\<lparr>ab_age := Some True\<rparr>)),
    (''palm oil'',
       mk ''Palm Oil'' ''palm_oil'' ''fat'' MODERATE 5
          [''High in saturated fat'']
          (no_flags\<lparr>ab_age := Some True\<rparr>)),
    (''artificial flavors'',
       mk ''Artificial Flavors'' ''artificial_flavors'' ''additive'' MODERATE 5
          [''Synthetic additives'', ''Unclear composition'']
          (no_flags\<lparr>ab_allergies := Some True\<rparr>)),
    (''artificial colors'',
       mk ''Artificial Colors'' ''artificial_colors'' ''additive'' MODERATE 5
          [''Hyperactivity in children'', ''Allergic reactions'']
          (no_flags\<lparr>ab_allergies := Some True\<rparr>)),
    (''milk'',
       mk ''Milk'' ''milk'' ''dairy'' LOW 0
          [''Common allergen'']
          (no_flags\<lparr>ab_allergies := Some True\<rparr>)),
    (''wheat'',
       mk ''Wheat'' ''wheat'' ''grain'' LOW 0
          [''Common allergen'', ''Gluten content'']
          (no_flags\<lparr>ab_allergies := Some True\<rparr>)),
    (''soy'',
       mk ''Soy'' ''soy'' ''legume'' LOW 0
          [''Common allergen'']
          (no_flags\<lparr>ab_allergies := Some True\<rparr>)),
    (''peanuts'',
       mk ''Peanuts'' ''peanuts'' ''nut'' LOW 0
          [''Severe allergen'']
          (no_flags\<lparr>ab_allergies := Some True\<rparr>)),
    (''whole wheat'',
       mk ''Whole Wheat'' ''whole_wheat'' ''grain'' LOW 0
          []
          (no_flags\<lparr>ab_allergies := Some True\<rparr>)),
    (''oats'',
       mk ''Oats'' ''oats'' ''grain'' LOW 0 [] no_flags),
    (''water'',
       mk ''Water'' ''water'' ''liquid'' LOW 0 [] no_flags)]"

text \<open>
  The partial-match loop of \<open>findIngredient\<close>: the first entry, in order, whose key is
  contained in the normalized name or contains it.
\<close>

fun partial_match :: "string \<Rightarrow> (string \<times> IngredientInfo) list \<Rightarrow> IngredientInfo option" where
  "partial_match normalized [] = None"
| "partial_match normalized ((key, v) # rest) =
     (if str_includes normalized key \<or> str_includes key normalized then Some v
      else partial_match normalized rest)"

text \<open>
  \<open>findIngredient\<close> has the return type \<open>IngredientInfo | null\<close>; the model returns an
  option. The direct match reads the entry stored under the normalized name
  (every stored record is an object, hence truthy). The model reads the table's own
  entries only: for the two lowercase names that every object inherits, \<open>constructor\<close>
  and \<open>__proto__\<close>, the property read of the source returns an inherited object, which
  the model does not follow.
\<close>

definition findIngredient :: "string \<Rightarrow> IngredientInfo option" where
  "findIngredient ingredientName =
     (let normalized = trim (toLowerCase ingredientName) in
      case map_of INGREDIENT_DATABASE normalized of
        Some v \<Rightarrow> Some v
      | None \<Rightarrow>
         (case partial_match normalized INGREDIENT_DATABASE of
            Some v \<Rightarrow> Some v
          | None \<Rightarrow>
             Some \<lparr>info_name = ingredientName,
                   info_canonicalForm = replace_runs is_space ''_'' normalized,
                   info_category = ''unknown'',
                   info_baselineRisk = LOW,
                   info_baseScore = 0,
                   info_concerns = [''Ingredient not in database''],
                   affectedBy = Some no_flags\<rparr>))"

section \<open>The scoring engine (scoringEngine.ts)\<close>

record UserProfile =
  age :: "int option"
  allergies :: "string list"
  has_diabetes :: bool
  diabetes_measure :: "string option"
  diabetes_value :: "rat option"
  blood_pressure_systolic :: "int option"
  blood_pressure_diastolic :: "int option"

record AIAnalyzedIngredient =
  ai_name :: string
  ai_category :: string
  riskLevel :: RiskLevel
  ai_baseScore :: rat
  ai_concerns :: "string list"
  ai_isAllergen :: bool
  diabetesRisk :: bool
  bpRisk :: bool

record MultiplierInfo =
  reason :: string
  mvalue :: rat

record IngredientScore =
  name :: string
  canonicalForm :: string
  category :: string
  baselineRisk :: string
  baseScore :: rat
  multipliers :: "MultiplierInfo list"
  finalScore :: rat
  comment :: string
  isAllergen :: bool

text \<open>A \<open>RiskLevel\<close> is one of three string literals; this is the string it is.\<close>

fun risk_string :: "RiskLevel \<Rightarrow> string" where
  "risk_string LOW = ''LOW''"
| "risk_string MODERATE = ''MODERATE''"
| "risk_string HIGH = ''HIGH''"

definition ALLERGY_PENALTY :: rat where "ALLERGY_PENALTY = 10"
definition DIABETES_MULTIPLIER :: rat where "DIABETES_MULTIPLIER = 15 / 10"
definition BLOOD_PRESSURE_MULTIPLIER :: rat where "BLOOD_PRESSURE_MULTIPLIER = 13 / 10"
definition AGE_MULTIPLIER :: rat where "AGE_MULTIPLIER = 11 / 10"

definition AGE_THRESHOLD :: int where "AGE_THRESHOLD = 65"
definition HIGH_BP_SYSTOLIC :: int where "HIGH_BP_SYSTOLIC = 130"
definition HIGH_BP_DIASTOLIC :: int where "HIGH_BP_DIASTOLIC = 80"

text \<open>
  \<open>Math.round\<close>: the nearest integer, a half rounded towards plus infinity; its result
  is exact. The steps of the two ingredient scorers below are written with the exact
  sum and products of their constants; on every base score of the database the rounded
  result is the one the double operations give.
\<close>

definition Math_round :: "rat \<Rightarrow> rat" where
  "Math_round x = of_int \<lfloor>x + 1 / 2\<rfloor>"

text \<open>
  The fixed comments. The first starts with the warning sign (U+26A0 U+FE0F), the second
  with the check mark (U+2713).
\<close>

definition ALLERGEN_ALERT :: string where
  "ALLERGEN_ALERT =
     [CHR 0xE2, CHR 0x9A, CHR 0xA0, CHR 0xEF, CHR 0xB8, CHR 0x8F] @
     '' ALLERGEN ALERT: This ingredient matches your allergy profile and should be avoided.''"

definition GENERALLY_SAFE :: string where
  "GENERALLY_SAFE =
     [CHR 0xE2, CHR 0x9C, CHR 0x93] @
     '' Generally considered safe with no specific concerns for your profile.''"

definition MODERATE_CONCERN :: string where
  "MODERATE_CONCERN = ''Moderate concern ingredient, but no personalized risk factors apply.''"

definition generateComment :: "IngredientInfo \<Rightarrow> MultiplierInfo list \<Rightarrow> bool \<Rightarrow> string" where
  "generateComment ingredient mults isAll =
     (if isAll then ALLERGEN_ALERT
      else case mults of
        [] \<Rightarrow> (if info_baselineRisk ingredient = LOW then GENERALLY_SAFE else MODERATE_CONCERN)
      | m # _ \<Rightarrow>
          ''Elevated concern due to: '' @ join '', '' (info_concerns ingredient) @ ''. '' @
          reason m @ ''.'')"

definition createDefaultScore :: "string \<Rightarrow> IngredientScore" where
  "createDefaultScore ingredientName =
     \<lparr>name = ingredientName,
      canonicalForm = replace_runs is_space ''_'' (toLowerCase ingredientName),
      category = ''unknown'',
      baselineRisk = ''LOW'',
      baseScore = 0,
      multipliers = [],
      finalScore = 0,
      comment = ''Ingredient not in database - unable to assess risk.'',
      isAllergen = False\<rparr>"

text \<open>
  The three variables \<open>finalScore\<close>, \<open>multipliers\<close> and \<open>isAllergen\<close> that the body of
  \<open>scoreIngredient\<close> updates, and its four personalization blocks as steps on them.
\<close>

record running =
  r_score :: rat
  r_multipliers :: "MultiplierInfo list"
  r_isAllergen :: bool

text \<open>\<open>ingredientInfo.affectedBy?.f\<close> read as a condition.\<close>

definition flag :: "(AffectedBy \<Rightarrow> bool option) \<Rightarrow> IngredientInfo \<Rightarrow> bool" where
  "flag f ingredientInfo =
     (case affectedBy ingredientInfo of None \<Rightarrow> False | Some ab \<Rightarrow> f ab = Some True)"

definition hasAllergy :: "string \<Rightarrow> UserProfile \<Rightarrow> bool" where
  "hasAllergy ingredientName userProfile =
     list_ex (\<lambda>allergy.
        str_includes (toLowerCase ingredientName) (toLowerCase allergy) \<or>
        str_includes (toLowerCase allergy) (toLowerCase ingredientName))
      (allergies userProfile)"

text \<open>\<open>v && v >= t\<close> and \<open>v && v > t\<close> on an optional number: absent and zero are falsy.\<close>

definition present_ge :: "int option \<Rightarrow> int \<Rightarrow> bool" where
  "present_ge v t = (case v of None \<Rightarrow> False | Some n \<Rightarrow> n \<noteq> 0 \<and> n \<ge> t)"

definition present_gt :: "int option \<Rightarrow> int \<Rightarrow> bool" where
  "present_gt v t = (case v of None \<Rightarrow> False | Some n \<Rightarrow> n \<noteq> 0 \<and> n > t)"

definition hasHighBP :: "UserProfile \<Rightarrow> bool" where
  "hasHighBP userProfile =
     (present_ge (blood_pressure_systolic userProfile) HIGH_BP_SYSTOLIC \<or>
      present_ge (blood_pressure_diastolic userProfile) HIGH_BP_DIASTOLIC)"

definition push :: "MultiplierInfo list \<Rightarrow> string \<Rightarrow> rat \<Rightarrow> MultiplierInfo list" where
  "push ms r v = ms @ [\<lparr>reason = r, mvalue = v\<rparr>]"

definition allergy_step :: "IngredientInfo \<Rightarrow> string \<Rightarrow> UserProfile \<Rightarrow> running \<Rightarrow> running" where
  "allergy_step ingredientInfo ingredientName userProfile st =
     (if flag ab_allergies ingredientInfo then
        (if hasAllergy ingredientName userProfile then
           \<lparr>r_score = r_score st + ALLERGY_PENALTY,
            r_multipliers = push (r_multipliers st) ''Matches your allergen list'' ALLERGY_PENALTY,
            r_isAllergen = True\<rparr>
         else st)
      else st)"

definition diabetes_step :: "IngredientInfo \<Rightarrow> UserProfile \<Rightarrow> running \<Rightarrow> running" where
  "diabetes_step ingredientInfo userProfile st =
     (if flag ab_diabetes ingredientInfo \<and> has_diabetes userProfile then
        st\<lparr>r_multipliers :=
             push (r_multipliers st) ''High glycemic concern for diabetes'' DIABETES_MULTIPLIER,
           r_score := r_score st * DIABETES_MULTIPLIER\<rparr>
      else st)"

definition bloodPressure_step :: "IngredientInfo \<Rightarrow> UserProfile \<Rightarrow> running \<Rightarrow> running" where
  "bloodPressure_step ingredientInfo userProfile st =
     (if flag ab_bloodPressure ingredientInfo then
        (if hasHighBP userProfile then
           st\<lparr>r_multipliers :=
                push (r_multipliers st) ''Sodium concern for blood pressure''
                  BLOOD_PRESSURE_MULTIPLIER,
              r_score := r_score st * BLOOD_PRESSURE_MULTIPLIER\<rparr>
         else st)
      else st)"

definition age_step :: "IngredientInfo \<Rightarrow> UserProfile \<Rightarrow> running \<Rightarrow> running" where
  "age_step ingredientInfo userProfile st =
     (if flag ab_age ingredientInfo \<and> present_gt (age userProfile) AGE_THRESHOLD then
        st\<lparr>r_multipliers :=
             push (r_multipliers st) ''Increased concern for age > 65'' AGE_MULTIPLIER,
           r_score := r_score st * AGE_MULTIPLIER\<rparr>
      else st)"

text \<open>The state of the three variables just before \<open>Math.round\<close>.\<close>

definition kb_running :: "IngredientInfo \<Rightarrow> string \<Rightarrow> UserProfile \<Rightarrow> running" where
  "kb_running ingredientInfo ingredientName userProfile =
     age_step ingredientInfo userProfile
       (bloodPressure_step ingredientInfo userProfile
          (diabetes_step ingredientInfo userProfile
             (allergy_step ingredientInfo ingredientName userProfile
                \<lparr>r_score = info_baseScore ingredientInfo, r_multipliers = [],
                 r_isAllergen = False\<rparr>)))"

definition scoreIngredient :: "string \<Rightarrow> UserProfile \<Rightarrow> IngredientScore" where
  "scoreIngredient ingredientName userProfile =
     (case findIngredient ingredientName of
        None \<Rightarrow> createDefaultScore ingredientName
      | Some ingredientInfo \<Rightarrow>
          (let st = kb_running ingredientInfo ingredientName userProfile in
           \<lparr>name = info_name ingredientInfo,
            canonicalForm = info_canonicalForm ingredientInfo,
            category = info_category ingredientInfo,
            baselineRisk = risk_string (info_baselineRisk ingredientInfo),
            baseScore = info_baseScore ingredientInfo,
            multipliers = r_multipliers st,
            finalScore = Math_round (r_score st),
            comment = generateComment ingredientInfo (r_multipliers st) (r_isAllergen st),
            isAllergen = r_isAllergen st\<rparr>))"

subsection \<open>The classifier path\<close>

definition generateCommentFromAI ::
    "AIAnalyzedIngredient \<Rightarrow> MultiplierInfo list \<Rightarrow> bool \<Rightarrow> string" where
  "generateCommentFromAI ingredient mults isAll =
     (if isAll then ALLERGEN_ALERT
      else case mults of
        [] \<Rightarrow> (if riskLevel ingredient = LOW then GENERALLY_SAFE else MODERATE_CONCERN)
      | m # _ \<Rightarrow>
          ''Elevated concern due to: '' @ join '', '' (ai_concerns ingredient) @ ''. '' @
          reason m @ ''.'')"

text \<open>
  The blocks of \<open>scoreIngredientWithAI\<close> on its two variables \<open>score\<close> and
  \<open>multipliers\<close>, in the order of the source; the result is the pair just before rounding.
\<close>

definition ai_running :: "AIAnalyzedIngredient \<Rightarrow> UserProfile \<Rightarrow> rat \<times> MultiplierInfo list" where
  "ai_running aiData userProfile =
     (let (score, ms) = (ai_baseScore aiData, []);
          (score, ms) =
            (if ai_isAllergen aiData
             then (score + ALLERGY_PENALTY, push ms ''Matches your allergen list'' ALLERGY_PENALTY)
             else (score, ms));
          (score, ms) =
            (if has_diabetes userProfile \<and> diabetesRisk aiData
             then (score * DIABETES_MULTIPLIER,
                   push ms ''High glycemic concern for diabetes'' DIABETES_MULTIPLIER)
             else (score, ms));
          (score, ms) =
            (if bpRisk aiData \<and> present_ge (blood_pressure_systolic userProfile) HIGH_BP_SYSTOLIC
             then (score * BLOOD_PRESSURE_MULTIPLIER,
                   push ms ''Sodium concern for blood pressure'' BLOOD_PRESSURE_MULTIPLIER)
             else (score, ms));
          (score, ms) =
            (if present_gt (age userProfile) AGE_THRESHOLD \<and>
                ai_category aiData \<in> set [''preservative'', ''fat'', ''additive'']
             then (score * AGE_MULTIPLIER,
                   push ms ''Increased concern for age > 65'' AGE_MULTIPLIER)
             else (score, ms))
      in (score, ms))"

definition scoreIngredientWithAI :: "AIAnalyzedIngredient \<Rightarrow> UserProfile \<Rightarrow> IngredientScore" where
  "scoreIngredientWithAI aiData userProfile =
     (let (score, ms) = ai_running aiData userProfile in
      \<lparr>name = ai_name aiData,
       canonicalForm = replace_runs is_space ''_'' (toLowerCase (ai_name aiData)),
       category = ai_category aiData,
       baselineRisk = risk_string (riskLevel aiData),
       baseScore = ai_baseScore aiData,
       multipliers = ms,
       finalScore = min (Math_round score) 10,
       comment = generateCommentFromAI aiData ms (ai_isAllergen aiData),
       isAllergen = ai_isAllergen aiData\<rparr>)"

subsection \<open>Product aggregation\<close>

datatype Verdict = Good | Moderate | Bad

text \<open>\<open>Partial<UserProfile>\<close>: every field of the profile, each optional.\<close>

record PartialUserProfile =
  p_age :: "int option"
  p_allergies :: "string list option"
  p_has_diabetes :: "bool option"
  p_diabetes_measure :: "string option"
  p_diabetes_value :: "rat option"
  p_blood_pressure_systolic :: "int option"
  p_blood_pressure_diastolic :: "int option"

record ProductScore =
  productName :: string
  scanDate :: string
  userProfile :: PartialUserProfile
  ingredientScores :: "IngredientScore list"
  productScore :: rat
  verdict :: Verdict
  topReasons :: "string list"
  disclaimer :: string

text \<open>A natural number in a template literal: its decimal digits.\<close>

definition digit_char :: "nat \<Rightarrow> char" where
  "digit_char d = ''0123456789'' ! (d mod 10)"

function show_nat :: "nat \<Rightarrow> string" where
  "show_nat n = (if n < 10 then [digit_char n] else show_nat (n div 10) @ [digit_char (n mod 10)])"
  by pat_completeness auto
termination
  by (relation "measure id") auto

definition generateTopReasons :: "IngredientScore list \<Rightarrow> Verdict \<Rightarrow> string list" where
  "generateTopReasons scores v =
     (let reasons = [];
          allergens = filter isAllergen scores;
          reasons =
            (if length allergens > 0
             then reasons @
                  [''Contains '' @ show_nat (length allergens) @
                   '' allergen(s) matching your profile'']
             else reasons);
          highRisk = filter (\<lambda>ing. baselineRisk ing = ''HIGH'') scores;
          reasons =
            (if length highRisk > 0
             then reasons @
                  [''Contains '' @ show_nat (length highRisk) @ '' high-risk ingredient(s): '' @
                   join '', '' (map name highRisk)]
             else reasons);
          withMultipliers = filter (\<lambda>ing. length (multipliers ing) > 0) scores;
          reasons =
            (if length withMultipliers > 0 \<and> length reasons < 3
             then (case multipliers (hd withMultipliers) of
                     m # _ \<Rightarrow> reasons @ [reason m]
                   | [] \<Rightarrow> reasons)
             else reasons);
          reasons =
            (if v = Good \<and> length reasons = 0
             then reasons @
                  [show_nat (length (filter (\<lambda>ing. baselineRisk ing = ''LOW'') scores)) @
                   '' low-risk ingredients with no personalized concerns'',
                   ''No allergens or high-risk additives detected'']
             else reasons)
      in take 3 reasons)"

text \<open>\<open>xs[i]\<close> on an array: undefined beyond its end.\<close>

definition at_index :: "'a list \<Rightarrow> nat \<Rightarrow> 'a option" where
  "at_index xs i = (if i < length xs then Some (xs ! i) else None)"

definition DISCLAIMER :: string where
  "DISCLAIMER = ''This analysis is for informational purposes only and is not a substitute for professional medical advice, diagnosis, or treatment.''"

text \<open>
  \<open>scoreProduct\<close>. The two things it obtains from outside are parameters: \<open>aiAnalysis\<close>,
  the list that \<open>analyzeIngredientsWithAI\<close> resolves to (the empty list when the remote
  call fails), and \<open>now\<close>, the time stamp \<open>new Date().toISOString()\<close>. The sum, the
  average and the normalization are computed with the double operations: the quotient of
  two integers and its further division by 30 are not doubles in general, and the
  rounding to a double can move a value across a half before \<open>Math.round\<close>. The length
  of an array is below \<open>2 ^ 32\<close> and hence a double.
\<close>

definition scoreProduct ::
    "string \<Rightarrow> string list \<Rightarrow> UserProfile \<Rightarrow> AIAnalyzedIngredient list \<Rightarrow> string \<Rightarrow> ProductScore"
where
  "scoreProduct pname ingredients profile aiAnalysis now =
     (let scores =
            map (\<lambda>(index, ing).
                   case at_index aiAnalysis index of
                     Some aiData \<Rightarrow> scoreIngredientWithAI aiData profile
                   | None \<Rightarrow> scoreIngredient ing profile)
                (enumerate 0 ingredients);
          totalScore = foldl (\<lambda>sum ing. fl64 (sum + finalScore ing)) 0 scores;
          avgScore =
            (if length ingredients > 0
             then fl64 (totalScore / of_nat (length ingredients)) else 0);
          pscore = min (Math_round (fl64 (fl64 (avgScore / 30) * 100))) 100;
          v = (if pscore \<le> 30 then Good else if pscore \<le> 60 then Moderate else Bad)
      in \<lparr>productName = pname,
          scanDate = now,
          userProfile =
            \<lparr>p_age = age profile,
             p_allergies = None,
             p_has_diabetes = Some (has_diabetes profile),
             p_diabetes_measure = None,
             p_diabetes_value = None,
             p_blood_pressure_systolic = blood_pressure_systolic profile,
             p_blood_pressure_diastolic = blood_pressure_diastolic profile\<rparr>,
          ingredientScores = scores,
          productScore = pscore,
          verdict = v,
          topReasons = generateTopReasons scores v,
          disclaimer = DISCLAIMER\<rparr>)"

subsection \<open>The text parser\<close>

record ParsedIngredients =
  pi_productName :: string
  pi_ingredients :: "string list"
  rawText :: string

text \<open>
  The regular expressions of the parser, each written out as the function that the
  backtracking matcher computes for it. The dot matches every character except a line
  terminator; \<open>\w\<close> is a letter, a digit or the underscore; \<open>\d\<close> is a digit; under the
  flag \<open>i\<close> a literal matches in either case.
\<close>

definition is_line_terminator :: "char \<Rightarrow> bool" where
  "is_line_terminator c = (c = CHR 0x0A \<or> c = CHR 0x0D)"

definition is_digit :: "char \<Rightarrow> bool" where
  "is_digit c = (c \<in> set ''0123456789'')"

definition is_word :: "char \<Rightarrow> bool" where
  "is_word c =
     (c \<in> set ''ABCDEFGHIJKLMNOPQRSTUVWXYZabcdefghijklmnopqrstuvwxyz0123456789_'')"

definition startsWith_ci :: "string \<Rightarrow> string \<Rightarrow> bool" where
  "startsWith_ci s t = startsWith (toLowerCase s) (toLowerCase t)"

text \<open>\<open>(?:Ingredients|INGREDIENTS)\<close> under \<open>i\<close>, at the start of \<open>s\<close>.\<close>

definition marker :: "string \<Rightarrow> bool" where
  "marker s = startsWith_ci s ''ingredients''"

text \<open>\<open>(?:Contains|CONTAINS|Nutrition|NUTRITION|$)\<close> under \<open>i\<close>, at the start of \<open>s\<close>.\<close>

definition section_end :: "string \<Rightarrow> bool" where
  "section_end s = (startsWith_ci s ''contains'' \<or> startsWith_ci s ''nutrition'' \<or> s = [])"

text \<open>
  The lazy group \<open>(.+?)\<close> followed by a test \<open>k\<close> for the rest of the expression: one
  character is taken, then one more each time \<open>k\<close> rejects what follows; the result is
  the text of the group. \<open>acc\<close> is what the group holds so far.
\<close>

fun dot_lazy :: "(string \<Rightarrow> bool) \<Rightarrow> string \<Rightarrow> string \<Rightarrow> string option" where
  "dot_lazy k acc [] = None"
| "dot_lazy k acc (c # cs) =
     (if is_line_terminator c then None
      else if k cs then Some (acc @ [c])
      else dot_lazy k (acc @ [c]) cs)"

text \<open>The greedy group \<open>(.+)\<close> at the end of an expression.\<close>

definition dot_greedy :: "string \<Rightarrow> string option" where
  "dot_greedy s =
     (let g = takeWhile (\<lambda>c. \<not> is_line_terminator c) s in if g = [] then None else Some g)"

text \<open>
  \<open>[:\s]+\<close> followed by a group \<open>k\<close>: the longest run of separators first, then one
  separator fewer each time \<open>k\<close> fails, never fewer than one.
\<close>

definition is_sep :: "char \<Rightarrow> bool" where
  "is_sep c = (c = CHR '':'' \<or> is_space c)"

fun sep_then :: "(string \<Rightarrow> string option) \<Rightarrow> nat \<Rightarrow> string \<Rightarrow> string option" where
  "sep_then k 0 rest = None"
| "sep_then k (Suc m) rest =
     (case k (drop (Suc m) rest) of Some g \<Rightarrow> Some g | None \<Rightarrow> sep_then k m rest)"

definition section_at :: "(string \<Rightarrow> string option) \<Rightarrow> string \<Rightarrow> string option" where
  "section_at k s =
     (if marker s
      then (let rest = drop (length ''ingredients'') s
            in sep_then k (length (takeWhile is_sep rest)) rest)
      else None)"

text \<open>An expression without anchor is tried at every position, the leftmost first.\<close>

fun leftmost :: "(string \<Rightarrow> string option) \<Rightarrow> string \<Rightarrow> string option" where
  "leftmost m [] = m []"
| "leftmost m (c # cs) = (case m (c # cs) of Some g \<Rightarrow> Some g | None \<Rightarrow> leftmost m cs)"

text \<open>\<open>text.split(/[,;]/)\<close>, for a one-character class.\<close>

fun split_on :: "(char \<Rightarrow> bool) \<Rightarrow> string \<Rightarrow> string list" where
  "split_on P [] = [[]]"
| "split_on P (c # cs) =
     (if P c then [] # split_on P cs
      else (case split_on P cs of
              w # ws \<Rightarrow> (c # w) # ws
            | [] \<Rightarrow> [[c]]))"

text \<open>
  \<open>ing.replace(/\([^)]*\)/g, '')\<close>: an opening parenthesis with a closing one somewhere
  after it is removed together with everything up to the first closing one.
\<close>

function strip_parens :: "string \<Rightarrow> string" where
  "strip_parens [] = []"
| "strip_parens (c # cs) =
     (if c = CHR ''('' \<and> CHR '')'' \<in> set cs
      then strip_parens (drop 1 (dropWhile (\<lambda>x. x \<noteq> CHR '')'') cs))
      else c # strip_parens cs)"
  by pat_completeness auto
termination
  by (relation "measure length")
     (auto simp: less_Suc_eq_le intro: order_trans [OF diff_le_self length_dropWhile_le])

definition parseIngredientList :: "string \<Rightarrow> string list" where
  "parseIngredientList text =
     (let ingredients =
            filter (\<lambda>ing. length ing > 0)
              (map trim (split_on (\<lambda>c. c = CHR '','' \<or> c = CHR '';'') text));
          ingredients =
            filter (\<lambda>ing. length ing > 2 \<and> \<not> (ing \<noteq> [] \<and> list_all is_digit ing))
              (map (\<lambda>ing.
                      let ing = trim (strip_parens ing);
                          ing = trim (map (\<lambda>c. if is_word c \<or> is_space c \<or> c = CHR ''-''
                                               then c else CHR '' '') ing);
                          ing = replace_runs is_space '' '' ing
                      in ing)
                 ingredients)
      in ingredients)"

definition parseIngredients :: "string \<Rightarrow> ParsedIngredients" where
  "parseIngredients ocrText =
     (let cleanText =
            trim (replace_runs is_space '' '' (replace_runs (\<lambda>c. c = CHR 0x0A) '' '' ocrText));
          productNameMatch = dot_lazy marker [] cleanText;
          pname = (case productNameMatch of Some g \<Rightarrow> trim g | None \<Rightarrow> ''Unknown Product'');
          ingredientsMatch = leftmost (section_at (dot_lazy section_end [])) cleanText
      in case ingredientsMatch of
           None \<Rightarrow>
             (let fallbackMatch = leftmost (section_at dot_greedy) cleanText;
                  ingredientsText = (case fallbackMatch of Some g \<Rightarrow> g | None \<Rightarrow> cleanText)
              in \<lparr>pi_productName = pname,
                  pi_ingredients = parseIngredientList ingredientsText,
                  rawText = cleanText\<rparr>)
         | Some ingredientsText \<Rightarrow>
             \<lparr>pi_productName = pname,
              pi_ingredients = parseIngredientList ingredientsText,
              rawText = cleanText\<rparr>)"

section \<open>Example inputs\<close>

text \<open>The profile of the first example scenario: diabetic, aged 70, systolic pressure 140.\<close>

definition profile_senior :: UserProfile where
  "profile_senior =
     \<lparr>age = Some 70, allergies = [], has_diabetes = True, diabetes_measure = None,
      diabetes_value = None, blood_pressure_systolic = Some 140,
      blood_pressure_diastolic = None\<rparr>"

text \<open>A profile with no condition recorded.\<close>

definition profile_plain :: UserProfile where
  "profile_plain =
     \<lparr>age = None, allergies = [], has_diabetes = False, diabetes_measure = None,
      diabetes_value = None, blood_pressure_systolic = None,
      blood_pressure_diastolic = None\<rparr>"

text \<open>A profile whose only condition is diabetes.\<close>

definition profile_diabetic :: UserProfile where
  "profile_diabetic = profile_plain\<lparr>has_diabetes := True\<rparr>"

text \<open>An ingredient list of seven times sugar, five times salt and eight times water.\<close>

definition mix_ingredients :: "string list" where
  "mix_ingredients = replicate 7 ''sugar'' @ replicate 5 ''salt'' @ replicate 8 ''water''"

text \<open>A profile whose only reading is a diastolic pressure of 90.\<close>

definition profile_diastolic :: UserProfile where
  "profile_diastolic = profile_plain\<lparr>blood_pressure_diastolic := Some 90\<rparr>"

text \<open>A profile with one allergy, to peanut.\<close>

definition profile_peanut :: UserProfile where
  "profile_peanut = profile_plain\<lparr>allergies := [''peanut'']\<rparr>"

text \<open>A profile allergic to artificial flavors.\<close>

definition profile_flavors :: UserProfile where
  "profile_flavors = profile_plain\<lparr>allergies := [''artificial flavors'']\<rparr>"

text \<open>A classifier record for salt: base score 5, blood-pressure risk set.\<close>

definition ai_salt :: AIAnalyzedIngredient where
  "ai_salt =
     \<lparr>ai_name = ''Salt'', ai_category = ''mineral'', riskLevel = MODERATE, ai_baseScore = 5,
      ai_concerns = [''Blood pressure elevation''], ai_isAllergen = False,
      diabetesRisk = False, bpRisk = True\<rparr>"

text \<open>A classifier record for peanuts, marked as an allergen and as a diabetes risk.\<close>

definition ai_peanuts :: AIAnalyzedIngredient where
  "ai_peanuts =
     \<lparr>ai_name = ''Peanuts'', ai_category = ''nut'', riskLevel = LOW, ai_baseScore = 0,
      ai_concerns = [''Severe allergen''], ai_isAllergen = True,
      diabetesRisk = True, bpRisk = False\<rparr>"

text \<open>The label text of the third example scenario.\<close>

definition choco_label :: string where
  "choco_label =
     ''Choco Bar Ingredients: Sugar, Milk, (2% or less of Salt), Cocoa. Contains: Milk, Soy''"

section \<open>Auxiliary facts\<close>

subsection \<open>The database and the lookup\<close>

lemma partial_match_mem:
  "partial_match n xs = Some v \<Longrightarrow> v \<in> snd ` set xs"
  by (induction xs) (auto split: if_splits)

lemma db_baseScore_range:
  "v \<in> snd ` set INGREDIENT_DATABASE \<Longrightarrow> 0 \<le> info_baseScore v \<and> info_baseScore v \<le> 10"
  by (auto simp: INGREDIENT_DATABASE_def mk_def)

lemma db_no_empty_key: "map_of INGREDIENT_DATABASE [] = None"
  by (simp add: INGREDIENT_DATABASE_def)

lemma partial_match_empty:
  "partial_match [] INGREDIENT_DATABASE = Some (snd (hd INGREDIENT_DATABASE))"
  by (simp add: INGREDIENT_DATABASE_def)

lemma str_includes_empty: "str_includes key []"
  by (induction key) auto

lemma findIngredient_total: "\<exists>i. findIngredient n = Some i"
  by (simp add: findIngredient_def Let_def split: option.split)

lemma findIngredient_baseScore:
  assumes "findIngredient n = Some i"
  shows "0 \<le> info_baseScore i \<and> info_baseScore i \<le> 10"
proof (cases "map_of INGREDIENT_DATABASE (trim (toLowerCase n))")
  case (Some v)
  then have "(trim (toLowerCase n), v) \<in> set INGREDIENT_DATABASE"
    by (rule map_of_SomeD)
  then have "v \<in> snd ` set INGREDIENT_DATABASE"
    by force
  moreover from Some assms have "i = v"
    by (simp add: findIngredient_def Let_def)
  ultimately show ?thesis using db_baseScore_range by blast
next
  case None
  show ?thesis
  proof (cases "partial_match (trim (toLowerCase n)) INGREDIENT_DATABASE")
    case (Some v)
    then have "v \<in> snd ` set INGREDIENT_DATABASE" by (rule partial_match_mem)
    moreover from Some None assms have "i = v"
      by (simp add: findIngredient_def Let_def)
    ultimately show ?thesis using db_baseScore_range by blast
  next
    case unknown: None
    with None assms show ?thesis
      by (auto simp: findIngredient_def Let_def)
  qed
qed

subsection \<open>Rounding\<close>

lemma Math_round_mono: "x \<le> y \<Longrightarrow> Math_round x \<le> Math_round y"
  by (simp add: Math_round_def floor_mono)

lemma Math_round_nonneg: "0 \<le> x \<Longrightarrow> 0 \<le> Math_round x"
  by (simp add: Math_round_def)

lemma Math_round_int: "Math_round x \<in> \<int>"
  by (simp add: Math_round_def)

lemma int_gt_30: "x \<in> \<int> \<Longrightarrow> (30 < x) = (31 \<le> x)" for x :: rat
proof -
  assume "x \<in> \<int>"
  then obtain k :: int where k: "x = of_int k" by (auto elim: Ints_cases)
  have "(30 < (of_int k :: rat)) = (30 < k)" by simp
  moreover have "(31 \<le> (of_int k :: rat)) = (31 \<le> k)" by simp
  ultimately show ?thesis using k by auto
qed

subsection \<open>The running score of the Knowledge-Base path\<close>

lemma kb_running_score:
  "r_score (kb_running i n p) =
     (((info_baseScore i
          + (if flag ab_allergies i \<and> hasAllergy n p then ALLERGY_PENALTY else 0))
         * (if flag ab_diabetes i \<and> has_diabetes p then DIABETES_MULTIPLIER else 1))
        * (if flag ab_bloodPressure i \<and> hasHighBP p then BLOOD_PRESSURE_MULTIPLIER else 1))
       * (if flag ab_age i \<and> present_gt (age p) AGE_THRESHOLD then AGE_MULTIPLIER else 1)"
  by (simp add: kb_running_def allergy_step_def diabetes_step_def bloodPressure_step_def
      age_step_def)

lemma allergy_step_multipliers:
  "r_multipliers (allergy_step i n p st) =
     r_multipliers st @
     (if flag ab_allergies i \<and> hasAllergy n p
      then [\<lparr>reason = ''Matches your allergen list'', mvalue = ALLERGY_PENALTY\<rparr>] else [])"
  by (simp add: allergy_step_def push_def)

lemma diabetes_step_multipliers:
  "r_multipliers (diabetes_step i p st) =
     r_multipliers st @
     (if flag ab_diabetes i \<and> has_diabetes p
      then [\<lparr>reason = ''High glycemic concern for diabetes'', mvalue = DIABETES_MULTIPLIER\<rparr>]
      else [])"
  by (simp add: diabetes_step_def push_def)

lemma bloodPressure_step_multipliers:
  "r_multipliers (bloodPressure_step i p st) =
     r_multipliers st @
     (if flag ab_bloodPressure i \<and> hasHighBP p
      then [\<lparr>reason = ''Sodium concern for blood pressure'',
             mvalue = BLOOD_PRESSURE_MULTIPLIER\<rparr>]
      else [])"
  by (simp add: bloodPressure_step_def push_def)

lemma age_step_multipliers:
  "r_multipliers (age_step i p st) =
     r_multipliers st @
     (if flag ab_age i \<and> present_gt (age p) AGE_THRESHOLD
      then [\<lparr>reason = ''Increased concern for age > 65'', mvalue = AGE_MULTIPLIER\<rparr>]
      else [])"
  by (simp add: age_step_def push_def)

lemma kb_running_multipliers:
  "r_multipliers (kb_running i n p) =
     (if flag ab_allergies i \<and> hasAllergy n p
      then [\<lparr>reason = ''Matches your allergen list'', mvalue = ALLERGY_PENALTY\<rparr>] else [])
     @ (if flag ab_diabetes i \<and> has_diabetes p
        then [\<lparr>reason = ''High glycemic concern for diabetes'', mvalue = DIABETES_MULTIPLIER\<rparr>]
        else [])
     @ (if flag ab_bloodPressure i \<and> hasHighBP p
        then [\<lparr>reason = ''Sodium concern for blood pressure'',
               mvalue = BLOOD_PRESSURE_MULTIPLIER\<rparr>]
        else [])
     @ (if flag ab_age i \<and> present_gt (age p) AGE_THRESHOLD
        then [\<lparr>reason = ''Increased concern for age > 65'', mvalue = AGE_MULTIPLIER\<rparr>]
        else [])"
  by (simp only: kb_running_def allergy_step_multipliers diabetes_step_multipliers
      bloodPressure_step_multipliers age_step_multipliers running.select_convs
      append_Nil append_assoc)

lemma kb_running_mvalues:
  "map mvalue (r_multipliers (kb_running i n p)) =
          (if flag ab_allergies i \<and> hasAllergy n p then [10] else [])
          @ (if flag ab_diabetes i \<and> has_diabetes p then [15 / 10] else [])
          @ (if flag ab_bloodPressure i \<and> hasHighBP p then [13 / 10] else [])
          @ (if flag ab_age i \<and> present_gt (age p) 65 then [11 / 10] else [])"
proof -
  have c: "map mvalue (if c then [\<lparr>reason = r, mvalue = v\<rparr>] else []) = (if c then [v] else [])"
    for c r v
    by simp
  show ?thesis
    unfolding kb_running_multipliers map_append c
    by (simp only: ALLERGY_PENALTY_def DIABETES_MULTIPLIER_def BLOOD_PRESSURE_MULTIPLIER_def
        AGE_MULTIPLIER_def AGE_THRESHOLD_def)
qed

lemma kb_running_mono:
  assumes b: "0 \<le> info_baseScore i"
    and a: "hasAllergy n p \<longrightarrow> hasAllergy n p'"
    and d: "has_diabetes p \<longrightarrow> has_diabetes p'"
    and h: "hasHighBP p \<longrightarrow> hasHighBP p'"
    and g: "present_gt (age p) AGE_THRESHOLD \<longrightarrow> present_gt (age p') AGE_THRESHOLD"
  shows "r_score (kb_running i n p) \<le> r_score (kb_running i n p')"
proof -
  let ?A = "\<lambda>p. if flag ab_allergies i \<and> hasAllergy n p then ALLERGY_PENALTY else 0"
  let ?D = "\<lambda>p. if flag ab_diabetes i \<and> has_diabetes p then DIABETES_MULTIPLIER else 1"
  let ?B = "\<lambda>p. if flag ab_bloodPressure i \<and> hasHighBP p then BLOOD_PRESSURE_MULTIPLIER else 1"
  let ?G = "\<lambda>p. if flag ab_age i \<and> present_gt (age p) AGE_THRESHOLD then AGE_MULTIPLIER else 1"
  have A: "?A p \<le> ?A p'" "0 \<le> ?A p"
    using a by (auto simp: ALLERGY_PENALTY_def)
  have D: "?D p \<le> ?D p'" "0 \<le> ?D p" "0 \<le> ?D p'"
    using d by (auto simp: DIABETES_MULTIPLIER_def)
  have B: "?B p \<le> ?B p'" "0 \<le> ?B p" "0 \<le> ?B p'"
    using h by (auto simp: BLOOD_PRESSURE_MULTIPLIER_def)
  have G: "?G p \<le> ?G p'" "0 \<le> ?G p" "0 \<le> ?G p'"
    using g by (auto simp: AGE_MULTIPLIER_def)
  have s1: "info_baseScore i + ?A p \<le> info_baseScore i + ?A p'"
    "0 \<le> info_baseScore i + ?A p"
    using A b by linarith+
  have s1': "0 \<le> info_baseScore i + ?A p'"
    using s1 by linarith
  have s2: "(info_baseScore i + ?A p) * ?D p \<le> (info_baseScore i + ?A p') * ?D p'"
    by (rule mult_mono) (use s1 s1' D in auto)
  have s2n: "0 \<le> (info_baseScore i + ?A p') * ?D p'"
    using s1' D(3) by (rule mult_nonneg_nonneg)
  have s3: "(info_baseScore i + ?A p) * ?D p * ?B p
              \<le> (info_baseScore i + ?A p') * ?D p' * ?B p'"
    by (rule mult_mono) (use s2 s2n B in auto)
  have s3n: "0 \<le> (info_baseScore i + ?A p') * ?D p' * ?B p'"
    using s2n B(3) by (rule mult_nonneg_nonneg)
  have s4: "(info_baseScore i + ?A p) * ?D p * ?B p * ?G p
              \<le> (info_baseScore i + ?A p') * ?D p' * ?B p' * ?G p'"
    by (rule mult_mono) (use s3 s3n G in auto)
  show ?thesis
    unfolding kb_running_score using s4 .
qed

lemma kb_running_nonneg:
  assumes b: "0 \<le> info_baseScore i"
  shows "0 \<le> r_score (kb_running i n p)"
  unfolding kb_running_score using b
  by (intro mult_nonneg_nonneg add_nonneg_nonneg)
     (auto simp: ALLERGY_PENALTY_def DIABETES_MULTIPLIER_def BLOOD_PRESSURE_MULTIPLIER_def
        AGE_MULTIPLIER_def)

lemma scoreIngredient_mono:
  assumes a: "hasAllergy n p \<longrightarrow> hasAllergy n p'"
    and d: "has_diabetes p \<longrightarrow> has_diabetes p'"
    and h: "hasHighBP p \<longrightarrow> hasHighBP p'"
    and g: "present_gt (age p) AGE_THRESHOLD \<longrightarrow> present_gt (age p') AGE_THRESHOLD"
  shows "finalScore (scoreIngredient n p) \<le> finalScore (scoreIngredient n p')"
proof -
  obtain i where i: "findIngredient n = Some i"
    using findIngredient_total by blast
  then have "0 \<le> info_baseScore i"
    using findIngredient_baseScore by blast
  then have "r_score (kb_running i n p) \<le> r_score (kb_running i n p')"
    using a d h g by (rule kb_running_mono)
  then show ?thesis
    using i by (simp add: scoreIngredient_def Let_def Math_round_mono)
qed

lemma kb_final_nonneg: "0 \<le> finalScore (scoreIngredient n p)"
proof -
  obtain i where i: "findIngredient n = Some i"
    using findIngredient_total by blast
  then have "0 \<le> info_baseScore i"
    using findIngredient_baseScore by blast
  then have "0 \<le> Math_round (r_score (kb_running i n p))"
    by (intro Math_round_nonneg kb_running_nonneg)
  then show ?thesis
    using i by (simp add: scoreIngredient_def Let_def)
qed

subsection \<open>The running score of the classifier path\<close>

lemma ai_running_nonneg:
  assumes "0 \<le> ai_baseScore a"
  shows "0 \<le> fst (ai_running a p)"
  using assms
  by (simp add: ai_running_def ALLERGY_PENALTY_def DIABETES_MULTIPLIER_def
      BLOOD_PRESSURE_MULTIPLIER_def AGE_MULTIPLIER_def)

lemma ai_final_nonneg:
  assumes "0 \<le> baseScore (scoreIngredientWithAI a p)"
  shows "0 \<le> finalScore (scoreIngredientWithAI a p)"
proof -
  from assms have "0 \<le> ai_baseScore a"
    by (simp add: scoreIngredientWithAI_def split: prod.splits)
  then have "0 \<le> Math_round (fst (ai_running a p))"
    by (intro Math_round_nonneg ai_running_nonneg)
  then show ?thesis
    by (simp add: scoreIngredientWithAI_def case_prod_beta)
qed

subsection \<open>Rounding to a double\<close>

lemma round_half_even_nonneg: "0 \<le> y \<Longrightarrow> 0 \<le> round_half_even y"
  by (simp add: round_half_even_def Let_def)

lemma pow2_pos: "0 < pow2 q"
  by (simp add: pow2_def)

lemma fl64_pos_nonneg: "0 \<le> x \<Longrightarrow> 0 \<le> fl64_pos x"
  unfolding fl64_pos_def Let_def
  by (intro mult_nonneg_nonneg) (simp_all add: round_half_even_nonneg pow2_pos less_imp_le)

lemma fl64_nonneg: "0 \<le> x \<Longrightarrow> 0 \<le> fl64 x"
  by (simp add: fl64_def fl64_pos_nonneg)

lemma foldl_fl64_nonneg:
  "0 \<le> a \<Longrightarrow> \<forall>x \<in> set xs. 0 \<le> x \<Longrightarrow> 0 \<le> foldl (\<lambda>sum x. fl64 (sum + x)) a xs"
proof (induction xs arbitrary: a)
  case Nil
  then show ?case by simp
next
  case (Cons y ys)
  from Cons.prems have "0 \<le> fl64 (a + y)"
    by (intro fl64_nonneg) simp
  moreover from Cons.prems have "\<forall>x \<in> set ys. 0 \<le> x"
    by simp
  ultimately show ?case
    using Cons.IH by simp
qed

text \<open>
  The doubles nearest to 1.3 and 1.1, and a quotient that the rounding moves below a
  half: 81 / 20 / 30 * 100 is 13.5 exactly and 13.499999999999998 in doubles.
\<close>

lemma fl64_examples:
  "fl64 (13 / 10) = 5854679515581645 / 4503599627370496
   \<and> fl64 (11 / 10) = 2476979795053773 / 2251799813685248
   \<and> fl64 (fl64 (fl64 (81 / 20) / 30) * 100) = 7599824371187711 / 562949953421312
   \<and> Math_round (fl64 (fl64 (fl64 (81 / 20) / 30) * 100)) = 13
   \<and> Math_round (81 / 20 / 30 * 100) = 14"
  by code_simp

text \<open>
  The sums and products that the base scores and flags of the database give rise to in
  the Knowledge-Base path: rounded, the double operations and the exact ones agree.
\<close>

lemma kb_steps_in_doubles:
  "Math_round (fl64 (5 * fl64 (15 / 10))) = Math_round (5 * (15 / 10))
   \<and> Math_round (fl64 (10 * fl64 (15 / 10))) = Math_round (10 * (15 / 10))
   \<and> Math_round (fl64 (5 * fl64 (13 / 10))) = Math_round (5 * (13 / 10))
   \<and> Math_round (fl64 (fl64 (5 * fl64 (13 / 10)) * fl64 (11 / 10)))
       = Math_round (5 * (13 / 10) * (11 / 10))
   \<and> Math_round (fl64 (5 * fl64 (11 / 10))) = Math_round (5 * (11 / 10))
   \<and> Math_round (fl64 (10 * fl64 (11 / 10))) = Math_round (10 * (11 / 10))
   \<and> Math_round (fl64 (5 + 10)) = Math_round (5 + 10)
   \<and> Math_round (fl64 (0 + 10)) = Math_round (0 + 10)"
  by code_simp

subsection \<open>The fields of a product score\<close>

lemma map_enumerate_snd: "map (\<lambda>(i, x). f x) (enumerate k xs) = map f xs"
  by (induction xs arbitrary: k) auto

lemma scores_nonneg:
  assumes "s \<in> set (ingredientScores (scoreProduct pname ingredients profile ai now))"
    and "0 \<le> baseScore s"
  shows "0 \<le> finalScore s"
proof -
  from assms(1) obtain index ing where
    "s = (case at_index ai index of
            Some aiData \<Rightarrow> scoreIngredientWithAI aiData profile
          | None \<Rightarrow> scoreIngredient ing profile)"
    by (auto simp: scoreProduct_def Let_def)
  with assms(2) show ?thesis
    by (cases "at_index ai index") (auto simp: kb_final_nonneg ai_final_nonneg)
qed

lemma foldl_map_finalScore:
  "foldl (\<lambda>sum ing. fl64 (sum + finalScore ing)) a scores
     = foldl (\<lambda>sum x. fl64 (sum + x)) a (map finalScore scores)"
  by (simp add: foldl_map)

lemma productScore_raw:
  "productScore (scoreProduct pname ingredients profile ai now) =
     min (Math_round
            (fl64 (fl64
               ((if length ingredients > 0
                 then fl64 (foldl (\<lambda>sum ing. fl64 (sum + finalScore ing)) 0
                              (ingredientScores
                                 (scoreProduct pname ingredients profile ai now))
                            / of_nat (length ingredients))
                 else 0) / 30) * 100))) 100"
  unfolding scoreProduct_def Let_def by (simp only: ProductScore.select_convs)

lemma productScore_eq:
  "productScore (scoreProduct pname ingredients profile ai now) =
     min (Math_round
            (fl64 (fl64
               ((if length ingredients > 0
                 then fl64 (foldl (\<lambda>sum x. fl64 (sum + x)) 0
                              (map finalScore
                                 (ingredientScores
                                    (scoreProduct pname ingredients profile ai now)))
                            / of_nat (length ingredients))
                 else 0) / 30) * 100))) 100"
  by (subst productScore_raw) (simp only: foldl_map_finalScore)

lemma verdict_eq:
  "verdict (scoreProduct pname ingredients profile ai now) =
     (if productScore (scoreProduct pname ingredients profile ai now) \<le> 30 then Good
      else if productScore (scoreProduct pname ingredients profile ai now) \<le> 60 then Moderate
      else Bad)"
  unfolding scoreProduct_def Let_def by (simp only: ProductScore.select_convs)

text \<open>
  Seven times sugar, five times salt and eight times water for the diabetic profile:
  the final scores add up to 81 over 20 ingredients, and the product score is 13.
\<close>

lemma mix_product_score:
  "map finalScore
     (ingredientScores (scoreProduct ''Mix'' mix_ingredients profile_diabetic [] ''t''))
     = replicate 7 8 @ replicate 5 5 @ replicate 8 0
   \<and> productScore (scoreProduct ''Mix'' mix_ingredients profile_diabetic [] ''t'') = 13"
  by code_simp

subsection \<open>The parser on the example label\<close>

lemma parse_choco_label:
  "parseIngredients choco_label =
     \<lparr>pi_productName = ''Choco Bar'', pi_ingredients = [''Sugar'', ''Milk'', ''Cocoa''],
      rawText = choco_label\<rparr>"
  by code_simp

section \<open>The claims\<close>

text \<open>
  C1. For a non-empty ingredient list whose per-ingredient base scores lie between 0 and
  10, \<open>scoreProduct\<close> sets the product score to the average of the final ingredient
  scores, divided by 30, times 100, rounded and capped at 100, each operation being the
  double operation of the source; the product score lies between 0 and 100; and the
  verdict is Good exactly when the product score is at most 30, Moderate exactly when it
  is between 31 and 60, Bad exactly when it is above 60.
\<close>

theorem scoreProduct_aggregation:
  assumes ne: "ingredients \<noteq> []"
    and base: "\<forall>s \<in> set (ingredientScores (scoreProduct pname ingredients profile ai now)).
                 0 \<le> baseScore s \<and> baseScore s \<le> 10"
  shows "let r = scoreProduct pname ingredients profile ai now;
             total = foldl (\<lambda>sum x. fl64 (sum + x)) 0 (map finalScore (ingredientScores r));
             average = fl64 (total / of_nat (length ingredients))
         in productScore r = min (Math_round (fl64 (fl64 (average / 30) * 100))) 100
          \<and> 0 \<le> productScore r \<and> productScore r \<le> 100
          \<and> (verdict r = Good \<longleftrightarrow> productScore r \<le> 30)
          \<and> (verdict r = Moderate \<longleftrightarrow> 31 \<le> productScore r \<and> productScore r \<le> 60)
          \<and> (verdict r = Bad \<longleftrightarrow> 60 < productScore r)"
proof -
  let ?r = "scoreProduct pname ingredients profile ai now"
  let ?total = "foldl (\<lambda>sum x. fl64 (sum + x)) 0 (map finalScore (ingredientScores ?r))"
  let ?average = "fl64 (?total / of_nat (length ingredients))"
  let ?x = "fl64 (fl64 (?average / 30) * 100)"
  have eq: "productScore ?r = min (Math_round ?x) 100"
    using ne by (simp add: productScore_eq [of pname ingredients profile ai now])
  have "\<forall>s \<in> set (ingredientScores ?r). 0 \<le> finalScore s"
    using base scores_nonneg by blast
  then have "\<forall>x \<in> set (map finalScore (ingredientScores ?r)). 0 \<le> x"
    by auto
  then have "0 \<le> ?total"
    by (intro foldl_fl64_nonneg) simp_all
  then have "0 \<le> ?total / of_nat (length ingredients)"
    by simp
  then have "0 \<le> ?average"
    by (rule fl64_nonneg)
  then have "0 \<le> ?average / 30"
    by simp
  then have "0 \<le> fl64 (?average / 30)"
    by (rule fl64_nonneg)
  then have "0 \<le> fl64 (?average / 30) * 100"
    by simp
  then have "0 \<le> ?x"
    by (rule fl64_nonneg)
  then have lo: "0 \<le> productScore ?r"
    using eq Math_round_nonneg [of ?x] by simp
  have hi: "productScore ?r \<le> 100"
    using eq by simp
  have "productScore ?r \<in> \<int>"
    unfolding eq min_def using Math_round_int [of ?x] by simp
  then have int: "(30 < productScore ?r) = (31 \<le> productScore ?r)"
    by (rule int_gt_30)
  have g: "verdict ?r = Good \<longleftrightarrow> productScore ?r \<le> 30"
    by (simp add: verdict_eq [of pname ingredients profile ai now])
  have m: "verdict ?r = Moderate \<longleftrightarrow> 31 \<le> productScore ?r \<and> productScore ?r \<le> 60"
    using int by (simp add: verdict_eq [of pname ingredients profile ai now]) linarith
  have b: "verdict ?r = Bad \<longleftrightarrow> 60 < productScore ?r"
    by (simp add: verdict_eq [of pname ingredients profile ai now])
  show ?thesis
    unfolding Let_def using eq lo hi g m b by blast
qed

text \<open>
  The theorem at salt (scored from a classifier record), sugar and water (scored from the
  database) for the senior profile: final scores 7, 8 and 0, product score 17, Good.
\<close>

theorem scoreProduct_aggregation_witness:
  "map baseScore
     (ingredientScores
        (scoreProduct ''Snack'' [''salt'', ''sugar'', ''water''] profile_senior [ai_salt] ''t''))
     = [5, 5, 0]
   \<and> map finalScore
     (ingredientScores
        (scoreProduct ''Snack'' [''salt'', ''sugar'', ''water''] profile_senior [ai_salt] ''t''))
     = [7, 8, 0]
   \<and> productScore
       (scoreProduct ''Snack'' [''salt'', ''sugar'', ''water''] profile_senior [ai_salt] ''t'')
     = 17
   \<and> (let r = scoreProduct ''Snack'' [''salt'', ''sugar'', ''water''] profile_senior [ai_salt] ''t'';
          total = foldl (\<lambda>sum x. fl64 (sum + x)) 0 (map finalScore (ingredientScores r));
          average = fl64 (total / of_nat (length [''salt'', ''sugar'', ''water'']))
      in productScore r = min (Math_round (fl64 (fl64 (average / 30) * 100))) 100
          \<and> 0 \<le> productScore r \<and> productScore r \<le> 100
          \<and> (verdict r = Good \<longleftrightarrow> productScore r \<le> 30)
          \<and> (verdict r = Moderate \<longleftrightarrow> 31 \<le> productScore r \<and> productScore r \<le> 60)
          \<and> (verdict r = Bad \<longleftrightarrow> 60 < productScore r))"
proof -
  let ?r = "scoreProduct ''Snack'' [''salt'', ''sugar'', ''water''] profile_senior [ai_salt] ''t''"
  have scores: "ingredientScores ?r =
      [scoreIngredientWithAI ai_salt profile_senior, scoreIngredient ''sugar'' profile_senior,
       scoreIngredient ''water'' profile_senior]"
    by (simp add: scoreProduct_def Let_def at_index_def enumerate_eq_zip upt_rec)
  have b1: "baseScore (scoreIngredientWithAI ai_salt profile_senior) = 5" by code_simp
  have b2: "baseScore (scoreIngredient ''sugar'' profile_senior) = 5" by code_simp
  have b3: "baseScore (scoreIngredient ''water'' profile_senior) = 0" by code_simp
  have f1: "finalScore (scoreIngredientWithAI ai_salt profile_senior) = 7" by code_simp
  have f2: "finalScore (scoreIngredient ''sugar'' profile_senior) = 8" by code_simp
  have f3: "finalScore (scoreIngredient ''water'' profile_senior) = 0" by code_simp
  have bs: "map baseScore (ingredientScores ?r) = [5, 5, 0]"
    using scores b1 b2 b3 by simp
  have fs: "map finalScore (ingredientScores ?r) = [7, 8, 0]"
    using scores f1 f2 f3 by simp
  have ps: "productScore ?r = 17"
    by code_simp
  have ne: "[''salt'', ''sugar'', ''water''] \<noteq> []"
    by simp
  have base: "\<forall>s \<in> set (ingredientScores ?r). 0 \<le> baseScore s \<and> baseScore s \<le> 10"
    using scores b1 b2 b3 by simp
  show ?thesis
    using bs fs ps scoreProduct_aggregation [OF ne base] by blast
qed

text \<open>
  C2. When the classifier adapter returns the empty list, the ingredient scores of the
  product score are the results of \<open>scoreIngredient\<close> on the input ingredients, in order.
\<close>

theorem fallback_scores_are_local:
  "ingredientScores (scoreProduct pname ingredients profile [] now)
     = map (\<lambda>ing. scoreIngredient ing profile) ingredients"
  by (simp add: scoreProduct_def Let_def at_index_def map_enumerate_snd)

text \<open>
  C3. On the Knowledge-Base path the allergy penalty 10 is added first, the running score
  is then multiplied by 1.5 for diabetes, by 1.3 for blood pressure and by 1.1 for age,
  each only when the flag of the record and the condition of the profile hold, and the
  result is rounded; the multipliers are recorded in the same order. With the classifier
  unavailable and the senior profile, sugar scores 8, salt 7 and water 0.
\<close>

theorem kb_order_and_examples:
  "(\<exists>i. findIngredient n = Some i
      \<and> finalScore (scoreIngredient n p) =
          Math_round
            ((((info_baseScore i
                 + (if flag ab_allergies i \<and> hasAllergy n p then 10 else 0))
                * (if flag ab_diabetes i \<and> has_diabetes p then 15 / 10 else 1))
               * (if flag ab_bloodPressure i \<and> hasHighBP p then 13 / 10 else 1))
              * (if flag ab_age i \<and> present_gt (age p) 65 then 11 / 10 else 1))
      \<and> map mvalue (multipliers (scoreIngredient n p)) =
          (if flag ab_allergies i \<and> hasAllergy n p then [10] else [])
          @ (if flag ab_diabetes i \<and> has_diabetes p then [15 / 10] else [])
          @ (if flag ab_bloodPressure i \<and> hasHighBP p then [13 / 10] else [])
          @ (if flag ab_age i \<and> present_gt (age p) 65 then [11 / 10] else []))
   \<and> profile_senior =
       \<lparr>age = Some 70, allergies = [], has_diabetes = True, diabetes_measure = None,
        diabetes_value = None, blood_pressure_systolic = Some 140,
        blood_pressure_diastolic = None\<rparr>
   \<and> map finalScore
       (ingredientScores
          (scoreProduct pname [''sugar'', ''salt'', ''water''] profile_senior [] now))
       = [8, 7, 0]"
proof (intro conjI)
  obtain i where i: "findIngredient n = Some i"
    using findIngredient_total by blast
  have fin: "finalScore (scoreIngredient n p) = Math_round (r_score (kb_running i n p))"
    using i by (simp add: scoreIngredient_def Let_def)
  have mul: "multipliers (scoreIngredient n p) = r_multipliers (kb_running i n p)"
    using i by (simp add: scoreIngredient_def Let_def)
  have 1: "finalScore (scoreIngredient n p) =
          Math_round
            ((((info_baseScore i
                 + (if flag ab_allergies i \<and> hasAllergy n p then 10 else 0))
                * (if flag ab_diabetes i \<and> has_diabetes p then 15 / 10 else 1))
               * (if flag ab_bloodPressure i \<and> hasHighBP p then 13 / 10 else 1))
              * (if flag ab_age i \<and> present_gt (age p) 65 then 11 / 10 else 1))"
    unfolding fin
    by (simp only: kb_running_score ALLERGY_PENALTY_def DIABETES_MULTIPLIER_def
        BLOOD_PRESSURE_MULTIPLIER_def AGE_MULTIPLIER_def AGE_THRESHOLD_def)
  have 2: "map mvalue (multipliers (scoreIngredient n p)) =
          (if flag ab_allergies i \<and> hasAllergy n p then [10] else [])
          @ (if flag ab_diabetes i \<and> has_diabetes p then [15 / 10] else [])
          @ (if flag ab_bloodPressure i \<and> hasHighBP p then [13 / 10] else [])
          @ (if flag ab_age i \<and> present_gt (age p) 65 then [11 / 10] else [])"
    unfolding mul by (rule kb_running_mvalues)
  show "\<exists>i. findIngredient n = Some i
      \<and> finalScore (scoreIngredient n p) =
          Math_round
            ((((info_baseScore i
                 + (if flag ab_allergies i \<and> hasAllergy n p then 10 else 0))
                * (if flag ab_diabetes i \<and> has_diabetes p then 15 / 10 else 1))
               * (if flag ab_bloodPressure i \<and> hasHighBP p then 13 / 10 else 1))
              * (if flag ab_age i \<and> present_gt (age p) 65 then 11 / 10 else 1))
      \<and> map mvalue (multipliers (scoreIngredient n p)) =
          (if flag ab_allergies i \<and> hasAllergy n p then [10] else [])
          @ (if flag ab_diabetes i \<and> has_diabetes p then [15 / 10] else [])
          @ (if flag ab_bloodPressure i \<and> hasHighBP p then [13 / 10] else [])
          @ (if flag ab_age i \<and> present_gt (age p) 65 then [11 / 10] else [])"
    using i 1 2 by blast
  show "profile_senior =
       \<lparr>age = Some 70, allergies = [], has_diabetes = True, diabetes_measure = None,
        diabetes_value = None, blood_pressure_systolic = Some 140,
        blood_pressure_diastolic = None\<rparr>"
    by (simp add: profile_senior_def)
  have s: "finalScore (scoreIngredient ''sugar'' profile_senior) = 8" by code_simp
  have t: "finalScore (scoreIngredient ''salt'' profile_senior) = 7" by code_simp
  have w: "finalScore (scoreIngredient ''water'' profile_senior) = 0" by code_simp
  have "ingredientScores
          (scoreProduct pname [''sugar'', ''salt'', ''water''] profile_senior [] now)
        = [scoreIngredient ''sugar'' profile_senior, scoreIngredient ''salt'' profile_senior,
           scoreIngredient ''water'' profile_senior]"
    by (simp add: scoreProduct_def Let_def at_index_def enumerate_eq_zip upt_rec)
  then show "map finalScore
       (ingredientScores
          (scoreProduct pname [''sugar'', ''salt'', ''water''] profile_senior [] now))
       = [8, 7, 0]"
    using s t w by simp
qed

text \<open>
  C4. The claim asks that both entry points apply the blood-pressure multiplier when the
  ingredient is blood-pressure sensitive and the systolic value is at least 130 or the
  diastolic value is at least 80. The classifier path reads the systolic value only: for
  the record \<open>ai_salt\<close> (blood-pressure risk set, base score 5) and a profile with no
  systolic value and diastolic 90 it records no multiplier and scores 5, where the
  Knowledge-Base path records the multiplier for salt and scores 7. No diastolic value
  changes the result of the classifier path.
\<close>

theorem classifier_path_ignores_diastolic:
  "scoreIngredientWithAI a (p\<lparr>blood_pressure_diastolic := d\<rparr>) = scoreIngredientWithAI a p
   \<and> bpRisk ai_salt
   \<and> blood_pressure_systolic profile_diastolic = None
   \<and> blood_pressure_diastolic profile_diastolic = Some 90
   \<and> hasHighBP profile_diastolic
   \<and> multipliers (scoreIngredientWithAI ai_salt profile_diastolic) = []
   \<and> finalScore (scoreIngredientWithAI ai_salt profile_diastolic) = 5
   \<and> multipliers (scoreIngredient ''salt'' profile_diastolic)
       = [\<lparr>reason = ''Sodium concern for blood pressure'', mvalue = 13 / 10\<rparr>]
   \<and> finalScore (scoreIngredient ''salt'' profile_diastolic) = 7"
proof (intro conjI)
  show "scoreIngredientWithAI a (p\<lparr>blood_pressure_diastolic := d\<rparr>)
          = scoreIngredientWithAI a p"
    by (simp add: scoreIngredientWithAI_def ai_running_def)
  show "bpRisk ai_salt" by code_simp
  show "blood_pressure_systolic profile_diastolic = None" by code_simp
  show "blood_pressure_diastolic profile_diastolic = Some 90" by code_simp
  show "hasHighBP profile_diastolic" by code_simp
  show "multipliers (scoreIngredientWithAI ai_salt profile_diastolic) = []" by code_simp
  show "finalScore (scoreIngredientWithAI ai_salt profile_diastolic) = 5" by code_simp
  show "multipliers (scoreIngredient ''salt'' profile_diastolic)
       = [\<lparr>reason = ''Sodium concern for blood pressure'', mvalue = 13 / 10\<rparr>]"
    by code_simp
  show "finalScore (scoreIngredient ''salt'' profile_diastolic) = 7" by code_simp
qed

text \<open>
  C5. The final score of the classifier path is the rounded running score capped at 10,
  hence at most 10. The Knowledge-Base path has no cap: its final score is the rounded
  running score, and artificial flavors (allergy flag set, base score 5) scored for a
  profile with that allergy gets 15.
\<close>

theorem ceiling_only_on_classifier_path:
  "finalScore (scoreIngredientWithAI a p) = min (Math_round (fst (ai_running a p))) 10
   \<and> finalScore (scoreIngredientWithAI a p) \<le> 10
   \<and> (\<exists>i. findIngredient n = Some i
          \<and> finalScore (scoreIngredient n p) = Math_round (r_score (kb_running i n p)))
   \<and> map_option info_baseScore (findIngredient ''artificial flavors'') = Some 5
   \<and> map_option (flag ab_allergies) (findIngredient ''artificial flavors'') = Some True
   \<and> hasAllergy ''artificial flavors'' profile_flavors
   \<and> finalScore (scoreIngredient ''artificial flavors'' profile_flavors) = 15"
proof (intro conjI)
  show "finalScore (scoreIngredientWithAI a p) = min (Math_round (fst (ai_running a p))) 10"
    by (simp add: scoreIngredientWithAI_def split: prod.split)
  then show "finalScore (scoreIngredientWithAI a p) \<le> 10"
    by simp
  show "\<exists>i. findIngredient n = Some i
          \<and> finalScore (scoreIngredient n p) = Math_round (r_score (kb_running i n p))"
    using findIngredient_total [of n] by (auto simp: scoreIngredient_def Let_def)
  show "map_option info_baseScore (findIngredient ''artificial flavors'') = Some 5"
    by code_simp
  show "map_option (flag ab_allergies) (findIngredient ''artificial flavors'') = Some True"
    by code_simp
  show "hasAllergy ''artificial flavors'' profile_flavors" by code_simp
  show "finalScore (scoreIngredient ''artificial flavors'' profile_flavors) = 15" by code_simp
qed

text \<open>
  C6, as the code has it. The parser splits the ingredient section at commas first, so
  the token \<open>(2% or less of Salt)\<close> is one parenthetical, removed whole: the label of the
  third scenario yields the product name Choco Bar and the ingredients Sugar, Milk, Cocoa.
\<close>

theorem parse_choco_label_code:
  "pi_productName
     (parseIngredients
        ''Choco Bar Ingredients: Sugar, Milk, (2% or less of Salt), Cocoa. Contains: Milk, Soy'')
     = ''Choco Bar''
   \<and> pi_ingredients
     (parseIngredients
        ''Choco Bar Ingredients: Sugar, Milk, (2% or less of Salt), Cocoa. Contains: Milk, Soy'')
     = [''Sugar'', ''Milk'', ''Cocoa'']"
  using parse_choco_label unfolding choco_label_def by simp

text \<open>C6 as stated fails: the list with \<open>or less of Salt\<close> is not what the parser returns.\<close>

theorem parse_choco_label_counterexample:
  "\<not> (pi_productName
         (parseIngredients
            ''Choco Bar Ingredients: Sugar, Milk, (2% or less of Salt), Cocoa. Contains: Milk, Soy'')
         = ''Choco Bar''
      \<and> pi_ingredients
         (parseIngredients
            ''Choco Bar Ingredients: Sugar, Milk, (2% or less of Salt), Cocoa. Contains: Milk, Soy'')
         = [''Sugar'', ''Milk'', ''or less of Salt'', ''Cocoa''])"
  using parse_choco_label unfolding choco_label_def by simp

text \<open>
  C7. On either path, a score with \<open>isAllergen\<close> set carries the fixed allergen alert as
  its comment, whatever multipliers were applied.
\<close>

theorem allergen_comment:
  "(isAllergen (scoreIngredient n p) \<longrightarrow> comment (scoreIngredient n p) = ALLERGEN_ALERT)
   \<and> (isAllergen (scoreIngredientWithAI a p) \<longrightarrow>
        comment (scoreIngredientWithAI a p) = ALLERGEN_ALERT)"
  by (auto simp: scoreIngredient_def scoreIngredientWithAI_def createDefaultScore_def
      generateComment_def generateCommentFromAI_def Let_def split: option.splits prod.splits)

text \<open>
  The theorem at peanuts for a profile allergic to peanut, and at a classifier record
  that is an allergen and also draws the diabetes multiplier.
\<close>

theorem allergen_comment_witness:
  "isAllergen (scoreIngredient ''peanuts'' profile_peanut)
   \<and> comment (scoreIngredient ''peanuts'' profile_peanut) = ALLERGEN_ALERT
   \<and> length (multipliers (scoreIngredientWithAI ai_peanuts profile_senior)) = 2
   \<and> isAllergen (scoreIngredientWithAI ai_peanuts profile_senior)
   \<and> comment (scoreIngredientWithAI ai_peanuts profile_senior) = ALLERGEN_ALERT"
proof -
  have 1: "isAllergen (scoreIngredient ''peanuts'' profile_peanut)" by code_simp
  have 2: "isAllergen (scoreIngredientWithAI ai_peanuts profile_senior)" by code_simp
  have 3: "length (multipliers (scoreIngredientWithAI ai_peanuts profile_senior)) = 2"
    by code_simp
  show ?thesis
    using 1 2 3 allergen_comment [of "''peanuts''" profile_peanut ai_peanuts]
      allergen_comment [of "''peanuts''" profile_senior ai_peanuts]
    by simp
qed

text \<open>
  C8. Switching on one personalization signal of the profile (one more allergy, diabetes,
  a systolic or diastolic pressure at the threshold or above, an age above 65), the other
  fields unchanged, never lowers the final score of \<open>scoreIngredient\<close>.
\<close>

theorem scoreIngredient_monotone:
  "finalScore (scoreIngredient n p)
     \<le> finalScore (scoreIngredient n (p\<lparr>allergies := allergies p @ [a]\<rparr>))
   \<and> finalScore (scoreIngredient n p)
     \<le> finalScore (scoreIngredient n (p\<lparr>has_diabetes := True\<rparr>))
   \<and> (HIGH_BP_SYSTOLIC \<le> s \<longrightarrow>
        finalScore (scoreIngredient n p)
          \<le> finalScore (scoreIngredient n (p\<lparr>blood_pressure_systolic := Some s\<rparr>)))
   \<and> (HIGH_BP_DIASTOLIC \<le> d \<longrightarrow>
        finalScore (scoreIngredient n p)
          \<le> finalScore (scoreIngredient n (p\<lparr>blood_pressure_diastolic := Some d\<rparr>)))
   \<and> (AGE_THRESHOLD < y \<longrightarrow>
        finalScore (scoreIngredient n p)
          \<le> finalScore (scoreIngredient n (p\<lparr>age := Some y\<rparr>)))"
proof (intro conjI impI)
  show "finalScore (scoreIngredient n p)
     \<le> finalScore (scoreIngredient n (p\<lparr>allergies := allergies p @ [a]\<rparr>))"
    by (rule scoreIngredient_mono) (auto simp: hasAllergy_def hasHighBP_def)
  show "finalScore (scoreIngredient n p)
     \<le> finalScore (scoreIngredient n (p\<lparr>has_diabetes := True\<rparr>))"
    by (rule scoreIngredient_mono) (auto simp: hasAllergy_def hasHighBP_def)
next
  assume "HIGH_BP_SYSTOLIC \<le> s"
  then show "finalScore (scoreIngredient n p)
          \<le> finalScore (scoreIngredient n (p\<lparr>blood_pressure_systolic := Some s\<rparr>))"
    by (intro scoreIngredient_mono)
       (auto simp: hasAllergy_def hasHighBP_def present_ge_def HIGH_BP_SYSTOLIC_def)
next
  assume "HIGH_BP_DIASTOLIC \<le> d"
  then show "finalScore (scoreIngredient n p)
          \<le> finalScore (scoreIngredient n (p\<lparr>blood_pressure_diastolic := Some d\<rparr>))"
    by (intro scoreIngredient_mono)
       (auto simp: hasAllergy_def hasHighBP_def present_ge_def HIGH_BP_DIASTOLIC_def)
next
  assume "AGE_THRESHOLD < y"
  then show "finalScore (scoreIngredient n p)
          \<le> finalScore (scoreIngredient n (p\<lparr>age := Some y\<rparr>))"
    by (intro scoreIngredient_mono)
       (auto simp: hasAllergy_def hasHighBP_def present_gt_def AGE_THRESHOLD_def)
qed

text \<open>
  The theorem at sodium benzoate (blood-pressure and age flags) and at artificial flavors
  (allergy flag), starting from the profile with no condition.
\<close>

theorem scoreIngredient_monotone_witness:
  "HIGH_BP_SYSTOLIC \<le> 140 \<and> HIGH_BP_DIASTOLIC \<le> 90 \<and> AGE_THRESHOLD < 70
   \<and> finalScore (scoreIngredient ''artificial flavors'' profile_plain)
       \<le> finalScore (scoreIngredient ''artificial flavors''
            (profile_plain\<lparr>allergies := allergies profile_plain @ [''artificial'']\<rparr>))
   \<and> finalScore (scoreIngredient ''sodium benzoate'' profile_plain)
       \<le> finalScore (scoreIngredient ''sodium benzoate''
            (profile_plain\<lparr>has_diabetes := True\<rparr>))
   \<and> finalScore (scoreIngredient ''sodium benzoate'' profile_plain)
       \<le> finalScore (scoreIngredient ''sodium benzoate''
            (profile_plain\<lparr>blood_pressure_systolic := Some 140\<rparr>))
   \<and> finalScore (scoreIngredient ''sodium benzoate'' profile_plain)
       \<le> finalScore (scoreIngredient ''sodium benzoate''
            (profile_plain\<lparr>blood_pressure_diastolic := Some 90\<rparr>))
   \<and> finalScore (scoreIngredient ''sodium benzoate'' profile_plain)
       \<le> finalScore (scoreIngredient ''sodium benzoate'' (profile_plain\<lparr>age := Some 70\<rparr>))"
proof -
  have h: "HIGH_BP_SYSTOLIC \<le> 140" "HIGH_BP_DIASTOLIC \<le> 90" "AGE_THRESHOLD < 70"
    by (simp_all add: HIGH_BP_SYSTOLIC_def HIGH_BP_DIASTOLIC_def AGE_THRESHOLD_def)
  show ?thesis
    using h
      scoreIngredient_monotone [of "''artificial flavors''" profile_plain "''artificial''" 140 90 70]
      scoreIngredient_monotone [of "''sodium benzoate''" profile_plain "''artificial''" 140 90 70]
    by blast
qed

text \<open>
  C9. For a name that is empty after lowercasing and trimming, \<open>findIngredient\<close> does not
  return the unknown-ingredient record: every key contains the empty string, so the
  partial match stops at the first entry of the database, the sugar record.
\<close>

theorem findIngredient_empty:
  "trim (toLowerCase s) = [] \<longrightarrow>
     str_includes key []
     \<and> hd INGREDIENT_DATABASE =
         (''sugar'',
          \<lparr>info_name = ''Sugar'', info_canonicalForm = ''sugar'', info_category = ''sweetener'',
           info_baselineRisk = MODERATE, info_baseScore = 5,
           info_concerns = [''High glycemic index'', ''Blood sugar spikes''],
           affectedBy = Some \<lparr>ab_allergies = None, ab_diabetes = Some True,
                               ab_bloodPressure = None, ab_age = None\<rparr>\<rparr>)
     \<and> findIngredient s = Some (snd (hd INGREDIENT_DATABASE))"
proof (intro impI conjI)
  show "str_includes key []"
    by (rule str_includes_empty)
  show "hd INGREDIENT_DATABASE =
         (''sugar'',
          \<lparr>info_name = ''Sugar'', info_canonicalForm = ''sugar'', info_category = ''sweetener'',
           info_baselineRisk = MODERATE, info_baseScore = 5,
           info_concerns = [''High glycemic index'', ''Blood sugar spikes''],
           affectedBy = Some \<lparr>ab_allergies = None, ab_diabetes = Some True,
                               ab_bloodPressure = None, ab_age = None\<rparr>\<rparr>)"
    by (simp add: INGREDIENT_DATABASE_def mk_def no_flags_def)
next
  assume "trim (toLowerCase s) = []"
  then show "findIngredient s = Some (snd (hd INGREDIENT_DATABASE))"
    by (simp add: findIngredient_def db_no_empty_key partial_match_empty)
qed

text \<open>The theorem at the empty string and at a string of two spaces.\<close>

theorem findIngredient_empty_witness:
  "trim (toLowerCase []) = [] \<and> trim (toLowerCase ''  '') = []
   \<and> findIngredient [] = Some (snd (hd INGREDIENT_DATABASE))
   \<and> findIngredient ''  '' = Some (snd (hd INGREDIENT_DATABASE))"
proof -
  have 1: "trim (toLowerCase []) = []" by code_simp
  have 2: "trim (toLowerCase ''  '') = []" by code_simp
  show ?thesis
    using 1 2 findIngredient_empty [of "[]" "''sugar''"]
      findIngredient_empty [of "''  ''" "''sugar''"]
    by simp
qed

text \<open>
  C10. The profile copied into the product score holds the age, the diabetes flag and the
  two blood-pressure values only; the allergies and the diabetes measure and value are
  absent from it, so a run on a profile with other allergies returns the same copy.
\<close>

theorem userProfile_redacted:
  "userProfile (scoreProduct pname ingredients p ai now) =
     \<lparr>p_age = age p, p_allergies = None, p_has_diabetes = Some (has_diabetes p),
      p_diabetes_measure = None, p_diabetes_value = None,
      p_blood_pressure_systolic = blood_pressure_systolic p,
      p_blood_pressure_diastolic = blood_pressure_diastolic p\<rparr>
   \<and> userProfile (scoreProduct pname ingredients (p\<lparr>allergies := al\<rparr>) ai' now')
       = userProfile (scoreProduct pname ingredients p ai now)"
  by (simp add: scoreProduct_def Let_def)

end
